theory Spec2Isabelle
  imports Complex_Main "HOL-Library.AList" "HOL-Library.Stream"
begin

section \<open>Numeric conventions\<close>

text \<open>
  The program computes with Go's \<open>float64\<close> and \<open>int\<close>. A \<open>float64\<close> is modelled by a
  \<^typ>\<open>real\<close>: rounding, infinities and NaN are outside the model. An \<open>int\<close> is
  modelled by an \<^typ>\<open>int\<close>; where the source increments one, the 64-bit wrap-around
  is written out.
\<close>

definition MaxInt :: int where
  \<comment> \<open>\<open>int(^uint(0) >> 1)\<close>\<close>
  "MaxInt = 9223372036854775807"

definition incr :: "int \<Rightarrow> int" where
  \<comment> \<open>\<open>n++\<close> on a 64-bit \<open>int\<close>\<close>
  "incr n = (if n = MaxInt then - MaxInt - 1 else n + 1)"

subsection \<open>utils: Clamp, Min, Distance\<close>

definition Clamp :: "real \<Rightarrow> real \<Rightarrow> real \<Rightarrow> real" where
  "Clamp val lo hi = (if val < lo then lo else if val > hi then hi else val)"

definition Min :: "real \<Rightarrow> real \<Rightarrow> real" where
  "Min a b = (if a < b then a else b)"

definition Distance :: "real \<Rightarrow> real \<Rightarrow> real \<Rightarrow> real \<Rightarrow> real" where
  "Distance x1 y1 x2 y2 = (let dx = x2 - x1; dy = y2 - y1 in sqrt (dx * dx + dy * dy))"

section \<open>Metabolism (creature/metabolism.go)\<close>

record Metabolism =
  Health :: real
  Hunger :: real
  Energy :: real
  HungerRate :: real
  EnergyRate :: real
  HealingRate :: real
  Glucose :: real
  Toxins :: real
  Endorphins :: real
  Adrenaline :: real
  LastMealTime :: real
  LastSleepTime :: real
  TotalFoodEaten :: int

definition NewMetabolism :: Metabolism where
  "NewMetabolism =
     \<lparr> Health = 100, Hunger = 30, Energy = 80,
       HungerRate = 0.05, EnergyRate = 0.03, HealingRate = 0.02,
       Glucose = 50, Toxins = 0, Endorphins = 30, Adrenaline = 10,
       LastMealTime = 0, LastSleepTime = 0, TotalFoodEaten = 0 \<rparr>"

definition processChemicals :: "Metabolism \<Rightarrow> Metabolism" where
  "processChemicals m =
     (let m1 = (if Glucose m > 0
                then (let glucoseUsed = Min (Glucose m) 0.1;
                          a = m\<lparr>Glucose := Glucose m - glucoseUsed\<rparr>;
                          b = a\<lparr>Energy := Clamp (Energy a + glucoseUsed * 2) 0 100\<rparr>
                      in b\<lparr>Hunger := Clamp (Hunger b - glucoseUsed * 3) 0 100\<rparr>)
                else m);
          m2 = (if Toxins m1 > 0 then m1\<lparr>Toxins := Clamp (Toxins m1 - 0.05) 0 100\<rparr> else m1);
          m3 = m2\<lparr>Endorphins := Clamp (Endorphins m2 - 0.02) 0 100\<rparr>
      in m3\<lparr>Adrenaline := Clamp (Adrenaline m3 - 0.03) 0 100\<rparr>)"

definition Metabolism_Update :: "Metabolism \<Rightarrow> real \<Rightarrow> Metabolism" where
  "Metabolism_Update m activityLevel =
     (let m1 = m\<lparr>Hunger := Clamp (Hunger m + HungerRate m) 0 100\<rparr>;
          energyLoss = EnergyRate m1 * (1 + activityLevel);
          m2 = m1\<lparr>Energy := Clamp (Energy m1 - energyLoss) 0 100\<rparr>;
          m3 = processChemicals m2;
          m4 = (if Hunger m3 > 80 then m3\<lparr>Health := Health m3 - 0.1\<rparr>
                else if Hunger m3 < 50 \<and> Energy m3 > 30
                then m3\<lparr>Health := Clamp (Health m3 + HealingRate m3) 0 100\<rparr>
                else m3);
          m5 = (if Energy m4 < 20 then m4\<lparr>Health := Health m4 - 0.05\<rparr> else m4);
          m6 = (if Toxins m5 > 50 then m5\<lparr>Health := Health m5 - Toxins m5 * 0.001\<rparr> else m5)
      in m6\<lparr>Health := Clamp (Health m6) 0 100\<rparr>)"

definition Eat :: "Metabolism \<Rightarrow> real \<Rightarrow> Metabolism" where
  "Eat m nutritionValue =
     (let m1 = m\<lparr>Glucose := Clamp (Glucose m + nutritionValue) 0 100\<rparr>;
          m2 = m1\<lparr>Hunger := Clamp (Hunger m1 - nutritionValue * 0.5) 0 100\<rparr>;
          m3 = m2\<lparr>Endorphins := Clamp (Endorphins m2 + 5) 0 100\<rparr>;
          m4 = m3\<lparr>LastMealTime := 0\<rparr>
      in m4\<lparr>TotalFoodEaten := incr (TotalFoodEaten m4)\<rparr>)"

definition Sleep :: "Metabolism \<Rightarrow> Metabolism" where
  "Sleep m =
     (let m1 = m\<lparr>Energy := Clamp (Energy m + 0.2) 0 100\<rparr>;
          m2 = (if Health m1 < 100 \<and> Hunger m1 < 70
                then m1\<lparr>Health := Clamp (Health m1 + HealingRate m1 * 2) 0 100\<rparr> else m1);
          m3 = (if Toxins m2 > 0 then m2\<lparr>Toxins := Clamp (Toxins m2 - 0.1) 0 100\<rparr> else m2)
      in m3\<lparr>LastSleepTime := 0\<rparr>)"

definition IngestToxin :: "Metabolism \<Rightarrow> real \<Rightarrow> Metabolism" where
  "IngestToxin m amount =
     (let m1 = m\<lparr>Toxins := Clamp (Toxins m + amount) 0 100\<rparr>
      in if amount > 20 then m1\<lparr>Health := Health m1 - amount * 0.2\<rparr> else m1)"

definition Exercise :: "Metabolism \<Rightarrow> real \<Rightarrow> Metabolism" where
  "Exercise m intensity =
     (let m1 = m\<lparr>Energy := Clamp (Energy m - intensity * 0.1) 0 100\<rparr>;
          m2 = m1\<lparr>Hunger := Clamp (Hunger m1 + intensity * 0.05) 0 100\<rparr>;
          m3 = m2\<lparr>Endorphins := Clamp (Endorphins m2 + intensity * 0.2) 0 100\<rparr>
      in m3\<lparr>Adrenaline := Clamp (Adrenaline m3 + intensity * 0.3) 0 100\<rparr>)"

definition metabolism_in_range :: "Metabolism \<Rightarrow> bool" where
  \<comment> \<open>the range the struct documents for the seven scalars\<close>
  "metabolism_in_range m \<longleftrightarrow>
     0 \<le> Health m \<and> Health m \<le> 100 \<and> 0 \<le> Hunger m \<and> Hunger m \<le> 100 \<and>
     0 \<le> Energy m \<and> Energy m \<le> 100 \<and> 0 \<le> Glucose m \<and> Glucose m \<le> 100 \<and>
     0 \<le> Toxins m \<and> Toxins m \<le> 100 \<and> 0 \<le> Endorphins m \<and> Endorphins m \<le> 100 \<and>
     0 \<le> Adrenaline m \<and> Adrenaline m \<le> 100"

section \<open>Creature and the breeding step of the world (src/unnamed/part_004, creature/breed.go, game/world.go)\<close>

datatype AgeStage = AgeBaby | AgeChild | AgeAdult | AgeElder

datatype panic = IndexOutOfRange | SliceBoundsOutOfRange

definition OutputBreed :: nat where
  \<comment> \<open>the eighth of the \<open>iota\<close> constants \<open>OutputMoveLeft \<dots> OutputBreed\<close>\<close>
  "OutputBreed = 7"

text \<open>
  Of a \<open>Creature\<close> the record keeps the fields that \<open>CanBreed\<close>, \<open>Breed\<close> and
  \<open>handleBreeding\<close> read or write. \<open>BrainOutput\<close> is the slice that
  \<open>c.Brain.GetOutput()\<close> returns. The world holds its creatures by pointer; the model
  holds them by value, one per index, so no creature occurs at two indices.
\<close>

record Creature =
  X :: real
  Y :: real
  Age :: real
  AgeStage :: AgeStage
  Size :: real
  Metabolism :: Metabolism
  BrainOutput :: "real list"
  LastBreedTime :: real

definition CanBreed :: "Creature \<Rightarrow> bool" where
  "CanBreed c \<longleftrightarrow>
     AgeStage c = AgeAdult \<and> Health (Metabolism c) > 70 \<and> Energy (Metabolism c) > 50 \<and>
     Age c - LastBreedTime c > 10"

definition Breed :: "Creature \<Rightarrow> Creature \<Rightarrow> Creature \<Rightarrow> Creature \<times> Creature \<times> Creature" where
  \<comment> \<open>\<open>fresh\<close> is the creature that \<open>NewCreature(parent1.X, parent2.Y, parent1.Type)\<close> builds;
      its genetics, brain weights, emotions and skills are not fields of the record.
      The result is the baby and the two parents with their breeding timers reset.\<close>
  "Breed fresh parent1 parent2 =
     (let baby = fresh\<lparr>X := X parent1, Y := Y parent2, Age := 0, AgeStage := AgeBaby, Size := 0.7,
                        Metabolism := NewMetabolism\<lparr>Health := 80, Energy := 60, Hunger := 50\<rparr>\<rparr>
      in (baby, parent1\<lparr>LastBreedTime := Age parent1\<rparr>, parent2\<lparr>LastBreedTime := Age parent2\<rparr>))"

record World =
  creatures :: "Creature list"

definition GetMaxCreatures :: nat where
  "GetMaxCreatures = 20"

definition breedOutput :: "Creature \<Rightarrow> panic + real" where
  \<comment> \<open>\<open>c.Brain.GetOutput()[creature.OutputBreed]\<close>\<close>
  "breedOutput c =
     (if OutputBreed < length (BrainOutput c) then Inr (BrainOutput c ! OutputBreed)
      else Inl IndexOutOfRange)"

definition closeAndWilling :: "Creature \<Rightarrow> Creature \<Rightarrow> panic + bool" where
  \<comment> \<open>\<open>dist < 60 && c1\<dots>[OutputBreed] > 0.7 && c2\<dots>[OutputBreed] > 0.7\<close>, left to right\<close>
  "closeAndWilling c1 c2 =
     (if Distance (X c1) (Y c1) (X c2) (Y c2) < 60
      then (case breedOutput c1 of
              Inl e \<Rightarrow> Inl e
            | Inr o1 \<Rightarrow>
                if o1 > 0.7
                then (case breedOutput c2 of Inl e \<Rightarrow> Inl e | Inr o2 \<Rightarrow> Inr (o2 > 0.7))
                else Inr False)
      else Inr False)"

text \<open>
  The two loops of \<open>handleBreeding\<close> change nothing until a pair breeds, and return as
  soon as one does. They are the search for that pair: \<open>findPartner\<close> is the inner loop
  from index \<open>j\<close>, \<open>findPair\<close> the outer loop from index \<open>i\<close>.
\<close>

function findPartner :: "Creature list \<Rightarrow> Creature \<Rightarrow> nat \<Rightarrow> panic + nat option" where
  "findPartner cs c1 j =
     (if j < length cs
      then (let c2 = cs ! j in
            if \<not> CanBreed c2 then findPartner cs c1 (j + 1)
            else (case closeAndWilling c1 c2 of
                    Inl e \<Rightarrow> Inl e
                  | Inr True \<Rightarrow> Inr (Some j)
                  | Inr False \<Rightarrow> findPartner cs c1 (j + 1)))
      else Inr None)"
  by pat_completeness auto
termination
  by (relation "measure (\<lambda>(cs, c1, j). length cs - j)") auto

function findPair :: "Creature list \<Rightarrow> nat \<Rightarrow> panic + (nat \<times> nat) option" where
  "findPair cs i =
     (if i < length cs
      then (let c1 = cs ! i in
            if \<not> CanBreed c1 then findPair cs (i + 1)
            else (case findPartner cs c1 (i + 1) of
                    Inl e \<Rightarrow> Inl e
                  | Inr (Some j) \<Rightarrow> Inr (Some (i, j))
                  | Inr None \<Rightarrow> findPair cs (i + 1)))
      else Inr None)"
  by pat_completeness auto
termination
  by (relation "measure (\<lambda>(cs, i). length cs - i)") auto

declare findPartner.simps [simp del] findPair.simps [simp del]

definition AddCreature :: "World \<Rightarrow> Creature \<Rightarrow> World" where
  "AddCreature w c = w\<lparr>creatures := creatures w @ [c]\<rparr>"

definition breedPair :: "Creature \<Rightarrow> World \<Rightarrow> nat \<Rightarrow> nat \<Rightarrow> World" where
  \<comment> \<open>the body of the \<open>if\<close> in \<open>handleBreeding\<close>, for the pair at indices \<open>i\<close> and \<open>j\<close>;
      \<open>c1\<close> and \<open>c2\<close> are pointers, so what is written to them is written to the
      entries \<open>i\<close> and \<open>j\<close> of the world\<close>
  "breedPair fresh w i j =
     (let (baby0, p1, p2) = Breed fresh (creatures w ! i) (creatures w ! j);
          baby = baby0\<lparr>X := (X p1 + X p2) / 2, Y := (Y p1 + Y p2) / 2\<rparr>;
          w1 = AddCreature (w\<lparr>creatures := (creatures w)[i := p1, j := p2]\<rparr>) baby;
          tired = (\<lambda>c. c\<lparr>Metabolism := (Metabolism c)\<lparr>Energy := Energy (Metabolism c) - 30\<rparr>\<rparr>)
      in w1\<lparr>creatures := (creatures w1)[i := tired (creatures w1 ! i), j := tired (creatures w1 ! j)]\<rparr>)"

definition handleBreeding :: "Creature \<Rightarrow> World \<Rightarrow> panic + World" where
  "handleBreeding fresh w =
     (if length (creatures w) \<ge> GetMaxCreatures then Inr w
      else (case findPair (creatures w) 0 of
              Inl e \<Rightarrow> Inl e
            | Inr None \<Rightarrow> Inr w
            | Inr (Some (i, j)) \<Rightarrow> Inr (breedPair fresh w i j)))"

definition fertilePair :: "Creature \<Rightarrow> Creature \<Rightarrow> bool" where
  \<comment> \<open>both fertile, within the breeding radius, both breed outputs above the threshold\<close>
  "fertilePair c1 c2 \<longleftrightarrow>
     CanBreed c1 \<and> CanBreed c2 \<and> Distance (X c1) (Y c1) (X c2) (Y c2) < 60 \<and>
     BrainOutput c1 ! OutputBreed > 0.7 \<and> BrainOutput c2 ! OutputBreed > 0.7"

section \<open>Learning: recall of experiences (creature/learning.go)\<close>







section \<open>Brain: the forward pass (creature/learning.go)\<close>

record Brain =
  inputSize :: int
  hiddenSize :: "int list"
  outputSize :: int
  weights :: "real list list"
  biases :: "real list list"
  activations :: "real list list"
  learningRate :: real
  momentum :: real
  prevWeightChanges :: "real list list"
  prevBiasChanges :: "real list list"
  "output" :: "real list"

definition sigmoid :: "real \<Rightarrow> real" where
  "sigmoid x = 1 / (1 + exp (- x))"

definition copy :: "'a list \<Rightarrow> 'a list \<Rightarrow> 'a list" where
  \<comment> \<open>Go's \<open>copy(dst, src)\<close>: the first \<open>min(len(dst), len(src))\<close> elements are overwritten\<close>
  "copy dst src = take (min (length dst) (length src)) src @ drop (min (length dst) (length src)) dst"

definition fitInput :: "int \<Rightarrow> real list \<Rightarrow> panic + real list" where
  \<comment> \<open>the padding or truncation at the head of \<open>Process\<close>\<close>
  "fitInput n input =
     (if int (length input) \<noteq> n
      then (if int (length input) < n then Inr (copy (replicate (nat n) 0) input)
            else if n < 0 then Inl SliceBoundsOutOfRange
            else Inr (take (nat n) input))
      else Inr input)"

function weightedSum :: "real list \<Rightarrow> real list \<Rightarrow> nat \<Rightarrow> nat \<Rightarrow> nat \<Rightarrow> real \<Rightarrow> panic + real" where
  \<comment> \<open>the innermost loop, from index \<open>i\<close>, with \<open>acc\<close> for the variable \<open>sum\<close>:
      \<open>acts\<close> is \<open>b.activations[layer]\<close> and \<open>ws\<close> is \<open>b.weights[layer]\<close>\<close>
  "weightedSum acts ws nextLayerSize j i acc =
     (if i < length acts
      then (let weightIndex = i * nextLayerSize + j
            in if weightIndex < length ws
               then weightedSum acts ws nextLayerSize j (i + 1) (acc + acts ! i * ws ! weightIndex)
               else Inl IndexOutOfRange)
      else Inr acc)"
  by pat_completeness auto
termination
  by (relation "measure (\<lambda>(acts, ws, n, j, i, s). length acts - i)") auto

declare weightedSum.simps [simp del]

definition neuronInput :: "real list list \<Rightarrow> real list list \<Rightarrow> real list list \<Rightarrow> nat \<Rightarrow> nat \<Rightarrow> panic + real" where
  \<comment> \<open>the variable \<open>sum\<close> for neuron \<open>j\<close> of layer \<open>layer + 1\<close>, starting from
      \<open>b.biases[layer][j]\<close>; \<open>ws\<close> is \<open>b.weights\<close>, \<open>bs\<close> is \<open>b.biases\<close> and \<open>acts\<close> is
      \<open>b.activations\<close>\<close>
  "neuronInput ws bs acts layer j =
     (if layer < length bs \<and> j < length (bs ! layer)
      then weightedSum (acts ! layer) (ws ! layer) (length (acts ! (layer + 1))) j 0 (bs ! layer ! j)
      else Inl IndexOutOfRange)"

function forwardNeurons :: "real list list \<Rightarrow> real list list \<Rightarrow> real list list \<Rightarrow> nat \<Rightarrow> nat \<Rightarrow> panic + real list list" where
  \<comment> \<open>the loop over \<open>j\<close>, writing \<open>b.activations[layer+1][j]\<close> in place\<close>
  "forwardNeurons ws bs acts layer j =
     (if j < length (acts ! (layer + 1))
      then (case neuronInput ws bs acts layer j of
              Inl e \<Rightarrow> Inl e
            | Inr acc \<Rightarrow>
                forwardNeurons ws bs (acts[layer + 1 := (acts ! (layer + 1))[j := sigmoid acc]]) layer (j + 1))
      else Inr acts)"
  by pat_completeness auto
termination
  by (relation "measure (\<lambda>(ws, bs, acts, layer, j). length (acts ! (layer + 1)) - j)")
     (auto, metis diff_less_mono2 length_list_update lessI linorder_not_less list_update_beyond nth_list_update_eq)

declare forwardNeurons.simps [simp del]

function forward :: "real list list \<Rightarrow> real list list \<Rightarrow> real list list \<Rightarrow> nat \<Rightarrow> panic + real list list" where
  \<comment> \<open>the loop over \<open>layer\<close>, up to \<open>len(b.weights)\<close>; \<open>b.activations[layer+1]\<close> must exist\<close>
  "forward ws bs acts layer =
     (if layer < length ws
      then (if layer + 1 < length acts
            then (case forwardNeurons ws bs acts layer 0 of
                    Inl e \<Rightarrow> Inl e
                  | Inr acts' \<Rightarrow> forward ws bs acts' (layer + 1))
            else Inl IndexOutOfRange)
      else Inr acts)"
  by pat_completeness auto
termination
  by (relation "measure (\<lambda>(ws, bs, acts, layer). length ws - layer)") auto

declare forward.simps [simp del]

definition Process :: "Brain \<Rightarrow> real list \<Rightarrow> panic + Brain" where
  "Process b input =
     (case fitInput (inputSize b) input of
        Inl e \<Rightarrow> Inl e
      | Inr inp \<Rightarrow>
          if activations b = [] then Inl IndexOutOfRange
          else (case forward (weights b) (biases b)
                       ((activations b)[0 := copy (activations b ! 0) inp]) 0 of
                  Inl e \<Rightarrow> Inl e
                | Inr acts \<Rightarrow>
                    Inr (b\<lparr>activations := acts,
                           output := copy (output b) (acts ! (length acts - 1))\<rparr>)))"

definition wf_brain :: "Brain \<Rightarrow> bool" where
  \<comment> \<open>the shape that \<open>initializeNetwork\<close> gives a brain: one weight matrix and one bias
      vector per layer boundary, sized by the two layers\<close>
  "wf_brain b \<longleftrightarrow>
     0 \<le> inputSize b \<and>
     length (activations b) = length (weights b) + 1 \<and>
     length (biases b) = length (weights b) \<and>
     (\<forall>k < length (weights b).
        length (biases b ! k) = length (activations b ! (k + 1)) \<and>
        length (weights b ! k) = length (activations b ! k) * length (activations b ! (k + 1)))"

section \<open>Maps and the random source\<close>

text \<open>
  A Go map is modelled by an association list with one entry per key: \<open>m[k]\<close> is
  \<^const>\<open>map_of\<close>, \<open>m[k] = v\<close> is \<^const>\<open>AList.update\<close>, \<open>delete(m, k)\<close> is
  \<^const>\<open>AList.delete\<close> and \<open>len(m)\<close> is the length of the list. A \<open>range\<close> loop visits
  the entries in the order of the list; Go leaves that order open, and a list can hold
  its entries in any order.

  The global generator of \<open>math/rand\<close> is modelled by a stream of reals that the
  functions consume and return: \<open>rand.Float64()\<close> takes the next element (Go draws it
  from \<open>[0, 1)\<close>), \<open>rand.Intn(n)\<close> reads the next element as an index below \<open>n\<close>.
\<close>

type_synonym rng = "real stream"

definition Float64 :: "rng \<Rightarrow> real \<times> rng" where
  "Float64 r = (shd r, stl r)"

definition Intn :: "nat \<Rightarrow> rng \<Rightarrow> nat \<times> rng" where
  "Intn n r = (nat \<lfloor>shd r * real n\<rfloor> mod n, stl r)"

section \<open>Genetics (src/unnamed/part_005)\<close>

record Genetics =
  Genes :: "(string \<times> real) list"
  ColorR :: real
  ColorG :: real
  ColorB :: real
  Pattern :: string
  DominantGenes :: "(string \<times> bool) list"

definition geneValue :: "(string \<times> real) list \<Rightarrow> string \<Rightarrow> real" where
  \<comment> \<open>\<open>genes[gene]\<close>: the zero value when the key is absent\<close>
  "geneValue genes gene = (case map_of genes gene of Some v \<Rightarrow> v | None \<Rightarrow> 0)"

definition geneDominant :: "(string \<times> bool) list \<Rightarrow> string \<Rightarrow> bool" where
  \<comment> \<open>\<open>dominantGenes[gene]\<close>: false when the key is absent\<close>
  "geneDominant dominant gene = (case map_of dominant gene of Some d \<Rightarrow> d | None \<Rightarrow> False)"

definition defaultGenes :: "(string \<times> real) list" where
  "defaultGenes =
     [(''metabolism_rate'', 0.5), (''movement_speed'', 0.5), (''learning_rate'', 0.5),
      (''lifespan'', 0.5), (''fertility'', 0.5), (''strength'', 0.5),
      (''happiness_bias'', 0.5), (''fear_threshold'', 0.5), (''anger_threshold'', 0.5),
      (''curiosity'', 0.5), (''sociability'', 0.5), (''aggression'', 0.5)]"

definition patterns :: "string list" where
  "patterns = [''solid'', ''spotted'', ''striped'']"

fun initializeLoop :: "(string \<times> real) list \<Rightarrow> Genetics \<Rightarrow> rng \<Rightarrow> Genetics \<times> rng" where
  "initializeLoop [] g r = (g, r)"
| "initializeLoop ((gene, val) # rest) g r =
     (let (u, r1) = Float64 r
      in initializeLoop rest
           (g\<lparr>Genes := AList.update gene val (Genes g),
              DominantGenes := AList.update gene (u > 0.5) (DominantGenes g)\<rparr>) r1)"

definition initializeDefaultGenes :: "Genetics \<Rightarrow> rng \<Rightarrow> Genetics \<times> rng" where
  "initializeDefaultGenes g r =
     (let (g1, r1) = initializeLoop defaultGenes g r
      in (g1\<lparr>ColorR := 0.5, ColorG := 0.7, ColorB := 0.3, Pattern := ''solid''\<rparr>, r1))"

definition NewGenetics :: "rng \<Rightarrow> Genetics \<times> rng" where
  "NewGenetics r =
     initializeDefaultGenes
       \<lparr>Genes = [], ColorR = 0, ColorG = 0, ColorB = 0, Pattern = [], DominantGenes = []\<rparr> r"

fun combineLoop :: "string list \<Rightarrow> Genetics \<Rightarrow> Genetics \<Rightarrow> Genetics \<Rightarrow> rng \<Rightarrow> Genetics \<times> rng" where
  \<comment> \<open>the loop of \<open>Combine\<close> over the keys of \<open>parent1.Genes\<close>\<close>
  "combineLoop [] parent1 parent2 child r = (child, r)"
| "combineLoop (gene # rest) parent1 parent2 child r =
     (let p1Value = geneValue (Genes parent1) gene;
          p2Value = geneValue (Genes parent2) gene;
          p1Dominant = geneDominant (DominantGenes parent1) gene;
          p2Dominant = geneDominant (DominantGenes parent2) gene
      in if p1Dominant \<and> p2Dominant
         then combineLoop rest parent1 parent2
                (child\<lparr>Genes := AList.update gene ((p1Value + p2Value) / 2) (Genes child),
                       DominantGenes := AList.update gene True (DominantGenes child)\<rparr>) r
         else if p1Dominant \<and> \<not> p2Dominant
         then (let (u, r1) = Float64 r
               in combineLoop rest parent1 parent2
                    (child\<lparr>Genes := AList.update gene p1Value (Genes child),
                           DominantGenes := AList.update gene (u > 0.25) (DominantGenes child)\<rparr>) r1)
         else if \<not> p1Dominant \<and> p2Dominant
         then (let (u, r1) = Float64 r
               in combineLoop rest parent1 parent2
                    (child\<lparr>Genes := AList.update gene p2Value (Genes child),
                           DominantGenes := AList.update gene (u > 0.25) (DominantGenes child)\<rparr>) r1)
         else combineLoop rest parent1 parent2
                (child\<lparr>Genes := AList.update gene ((p1Value + p2Value) / 2) (Genes child),
                       DominantGenes := AList.update gene False (DominantGenes child)\<rparr>) r)"

definition combineGenes :: "Genetics \<Rightarrow> Genetics \<Rightarrow> rng \<Rightarrow> Genetics \<times> rng" where
  \<comment> \<open>\<open>Combine\<close> up to, and without, its last statement \<open>child.Mutate()\<close>\<close>
  "combineGenes parent1 parent2 r =
     (let (child, r1) = NewGenetics r;
          (child1, r2) = combineLoop (map fst (Genes parent1)) parent1 parent2 child r1;
          child2 = child1\<lparr>ColorR := (ColorR parent1 + ColorR parent2) / 2,
                         ColorG := (ColorG parent1 + ColorG parent2) / 2,
                         ColorB := (ColorB parent1 + ColorB parent2) / 2\<rparr>;
          (u, r3) = Float64 r2
      in (if u > 0.5 then child2\<lparr>Pattern := Pattern parent1\<rparr>
          else child2\<lparr>Pattern := Pattern parent2\<rparr>, r3))"

fun mutateLoop :: "string list \<Rightarrow> Genetics \<Rightarrow> rng \<Rightarrow> Genetics \<times> rng" where
  \<comment> \<open>the loop of \<open>Mutate\<close> over the keys of \<open>g.Genes\<close>, with \<open>mutationRate\<close> and
      \<open>mutationStrength\<close> both 0.1\<close>
  "mutateLoop [] g r = (g, r)"
| "mutateLoop (gene # rest) g r =
     (let (u, r1) = Float64 r
      in if u < 0.1
         then (let (v, r2) = Float64 r1;
                   change = (v * 2 - 1) * 0.1;
                   g1 = g\<lparr>Genes := AList.update gene (Clamp (geneValue (Genes g) gene + change) 0 1) (Genes g)\<rparr>;
                   (f, r3) = Float64 r2
               in if f < 0.05
                  then mutateLoop rest
                         (g1\<lparr>DominantGenes := AList.update gene (\<not> geneDominant (DominantGenes g1) gene)
                                                 (DominantGenes g1)\<rparr>) r3
                  else mutateLoop rest g1 r3)
         else mutateLoop rest g r1)"

definition Genetics_Mutate :: "Genetics \<Rightarrow> rng \<Rightarrow> Genetics \<times> rng" where
  "Genetics_Mutate g r =
     (let (g1, r1) = mutateLoop (map fst (Genes g)) g r;
          (u, r2) = Float64 r1;
          (g2, r3) = (if u < 0.1
                      then (let (a, ra) = Float64 r2;
                                ga = g1\<lparr>ColorR := Clamp (ColorR g1 + (a * 2 - 1) * 0.1) 0 1\<rparr>;
                                (b, rb) = Float64 ra;
                                gb = ga\<lparr>ColorG := Clamp (ColorG ga + (b * 2 - 1) * 0.1) 0 1\<rparr>;
                                (c, rc) = Float64 rb
                            in (gb\<lparr>ColorB := Clamp (ColorB gb + (c * 2 - 1) * 0.1) 0 1\<rparr>, rc))
                      else (g1, r2));
          (p, r4) = Float64 r3
      in if p < 0.02
         then (let (k, r5) = Intn (length patterns) r4 in (g2\<lparr>Pattern := patterns ! k\<rparr>, r5))
         else (g2, r4))"

definition Combine :: "Genetics \<Rightarrow> Genetics \<Rightarrow> rng \<Rightarrow> Genetics \<times> rng" where
  "Combine parent1 parent2 r =
     (let (child, r1) = combineGenes parent1 parent2 r in Genetics_Mutate child r1)"

fun similarityLoop :: "(string \<times> real) list \<Rightarrow> (string \<times> real) list \<Rightarrow> real \<times> int \<Rightarrow> real \<times> int" where
  \<comment> \<open>the loop of \<open>Similarity\<close> over \<open>g.Genes\<close>, carrying \<open>(totalDiff, count)\<close>; a map has
      fewer than \<open>2^63\<close> entries, so \<open>count++\<close> does not wrap\<close>
  "similarityLoop [] other acc = acc"
| "similarityLoop ((gene, val) # rest) other (totalDiff, count) =
     (case map_of other gene of
        Some otherValue \<Rightarrow> similarityLoop rest other (totalDiff + \<bar>val - otherValue\<bar>, count + 1)
      | None \<Rightarrow> similarityLoop rest other (totalDiff, count))"

definition similarityTotals :: "Genetics \<Rightarrow> Genetics \<Rightarrow> real \<times> int" where
  \<comment> \<open>\<open>(totalDiff, count)\<close> where \<open>Similarity\<close> tests \<open>count == 0\<close>\<close>
  "similarityTotals g other =
     (let (totalDiff, count) = similarityLoop (Genes g) (Genes other) (0, 0)
      in (totalDiff + \<bar>ColorR g - ColorR other\<bar> + \<bar>ColorG g - ColorG other\<bar>
            + \<bar>ColorB g - ColorB other\<bar>, count + 3))"

definition Similarity :: "Genetics \<Rightarrow> Genetics option \<Rightarrow> real" where
  \<comment> \<open>the argument is a pointer: \<open>None\<close> is \<open>nil\<close>\<close>
  "Similarity g other =
     (case other of
        None \<Rightarrow> 0
      | Some other' \<Rightarrow>
          (let (totalDiff, count) = similarityTotals g other'
           in if count = 0 then 1.0 else 1.0 - totalDiff / real_of_int count))"

definition genes_in_unit :: "Genetics \<Rightarrow> bool" where
  \<comment> \<open>every gene value lies in \<open>[0, 1]\<close>\<close>
  "genes_in_unit g \<longleftrightarrow> list_all (\<lambda>(gene, v). 0 \<le> v \<and> v \<le> 1) (Genes g)"

section \<open>Language (src/unnamed/part_006)\<close>

text \<open>
  A Go string is a sequence of bytes, here a \<^typ>\<open>string\<close>. \<open>strings.ToLower\<close> and
  \<open>strings.TrimSpace\<close> are modelled on ASCII: the letters \<open>A\<close> to \<open>Z\<close> are lowered, the
  six ASCII white-space bytes are trimmed, every other byte is kept as it is.
\<close>

definition toLowerChar :: "char \<Rightarrow> char" where
  "toLowerChar c =
     (case map_of (zip ''ABCDEFGHIJKLMNOPQRSTUVWXYZ'' ''abcdefghijklmnopqrstuvwxyz'') c of
        Some d \<Rightarrow> d
      | None \<Rightarrow> c)"

definition ToLower :: "string \<Rightarrow> string" where
  "ToLower w = map toLowerChar w"

definition isSpace :: "char \<Rightarrow> bool" where
  \<comment> \<open>tab, line feed, vertical tab, form feed, carriage return, space\<close>
  "isSpace c \<longleftrightarrow> c \<in> set [CHR 0x09, CHR 0x0A, CHR 0x0B, CHR 0x0C, CHR 0x0D, CHR '' '']"

definition TrimSpace :: "string \<Rightarrow> string" where
  "TrimSpace w = rev (dropWhile isSpace (rev (dropWhile isSpace w)))"

record Concept =
  Word :: string
  ObjectType :: string
  Associations :: "string list"
  Confidence :: real
  TimesUsed :: int
  LastUsed :: real

record Language =
  Vocabulary :: "(string \<times> Concept) list"
  RecentWords :: "string list"
  SpeechClarity :: real
  Comprehension :: real
  VocabularyLimit :: int
  CurrentWord :: string
  SpeechTimer :: real

definition NewLanguage :: Language where
  "NewLanguage =
     \<lparr> Vocabulary = [], RecentWords = [], SpeechClarity = 0.5, Comprehension = 0.5,
       VocabularyLimit = 50, CurrentWord = [], SpeechTimer = 0 \<rparr>"

fun leastUsedLoop :: "(string \<times> Concept) list \<Rightarrow> string \<times> int \<Rightarrow> string \<times> int" where
  \<comment> \<open>the loop of \<open>replaceLeastUsedWord\<close>, carrying \<open>(leastUsed, minUsage)\<close>\<close>
  "leastUsedLoop [] acc = acc"
| "leastUsedLoop ((w, concept) # rest) (leastUsed, minUsage) =
     (if TimesUsed concept < minUsage then leastUsedLoop rest (w, TimesUsed concept)
      else leastUsedLoop rest (leastUsed, minUsage))"

definition replaceLeastUsedWord :: "Language \<Rightarrow> string \<Rightarrow> string \<Rightarrow> Language" where
  "replaceLeastUsedWord l newWord objectType =
     (let (leastUsed, minUsage) = leastUsedLoop (Vocabulary l) ([], MaxInt)
      in if leastUsed \<noteq> []
         then l\<lparr>Vocabulary :=
                  AList.update newWord
                    \<lparr>Word = newWord, ObjectType = objectType, Associations = [],
                     Confidence = 0.3 * Comprehension l, TimesUsed = 1, LastUsed = 0\<rparr>
                    (AList.delete leastUsed (Vocabulary l))\<rparr>
         else l)"

definition addRecentWord :: "Language \<Rightarrow> string \<Rightarrow> Language" where
  "addRecentWord l w =
     (let l1 = l\<lparr>RecentWords := RecentWords l @ [w]\<rparr>
      in if length (RecentWords l1) > 5 then l1\<lparr>RecentWords := drop 1 (RecentWords l1)\<rparr> else l1)"

definition learnWordFromContext :: "Language \<Rightarrow> string \<Rightarrow> Language" where
  \<comment> \<open>the context is not inspected: \<open>objectType\<close> is always \<open>"unknown"\<close>\<close>
  "learnWordFromContext l w =
     (let objectType = ''unknown''
      in case map_of (Vocabulary l) w of
           Some concept \<Rightarrow>
             l\<lparr>Vocabulary :=
                 AList.update w
                   (concept\<lparr>Confidence := Min 1.0 (Confidence concept + 0.1),
                            TimesUsed := incr (TimesUsed concept), LastUsed := 0\<rparr>)
                   (Vocabulary l)\<rparr>
         | None \<Rightarrow>
             if int (length (Vocabulary l)) < VocabularyLimit l
             then l\<lparr>Vocabulary :=
                      AList.update w
                        \<lparr>Word = w, ObjectType = objectType, Associations = [],
                         Confidence = 0.3 * Comprehension l, TimesUsed = 1, LastUsed = 0\<rparr>
                        (Vocabulary l)\<rparr>
             else replaceLeastUsedWord l w objectType)"

definition HearWord :: "Language \<Rightarrow> string \<Rightarrow> bool \<Rightarrow> Language" where
  \<comment> \<open>\<open>hasContext\<close> is \<open>context != nil\<close>\<close>
  "HearWord l word hasContext =
     (let w = ToLower (TrimSpace word)
      in if w = [] then l
         else (let l1 = addRecentWord l w
               in if hasContext then learnWordFromContext l1 w else l1))"

definition KnowsWord :: "Language \<Rightarrow> string \<Rightarrow> bool" where
  "KnowsWord l word =
     (let w = ToLower (TrimSpace word)
      in case map_of (Vocabulary l) w of Some concept \<Rightarrow> Confidence concept > 0.3 | None \<Rightarrow> False)"

definition GetWordConfidence :: "Language \<Rightarrow> string \<Rightarrow> real" where
  "GetWordConfidence l word =
     (let w = ToLower (TrimSpace word)
      in case map_of (Vocabulary l) w of Some concept \<Rightarrow> Confidence concept | None \<Rightarrow> 0)"

definition GetVocabularySize :: "Language \<Rightarrow> nat" where
  "GetVocabularySize l = length (Vocabulary l)"

definition TeachWord :: "Language \<Rightarrow> string \<Rightarrow> string \<Rightarrow> Language" where
  "TeachWord l word objectType =
     (let w = ToLower (TrimSpace word);
          l1 = l\<lparr>Vocabulary :=
                   AList.update w
                     \<lparr>Word = w, ObjectType = objectType, Associations = [],
                      Confidence = 0.8, TimesUsed = 0, LastUsed = 0\<rparr>
                     (Vocabulary l)\<rparr>
      in if int (length (Vocabulary l1)) > VocabularyLimit l1
         then replaceLeastUsedWord l1 [] []
         else l1)"

fun ageVocabulary :: "(string \<times> Concept) list \<Rightarrow> (string \<times> Concept) list" where
  \<comment> \<open>the loop of \<open>Update\<close>: \<open>concept\<close> is a copy of the entry, which is written back
      or deleted only in the branch \<open>concept.LastUsed > 600\<close>\<close>
  "ageVocabulary [] = []"
| "ageVocabulary ((w, concept) # rest) =
     (let concept1 = concept\<lparr>LastUsed := LastUsed concept + 0.016\<rparr>
      in if LastUsed concept1 > 600
         then (let concept2 = concept1\<lparr>Confidence := Confidence concept1 * 0.999\<rparr>
               in if Confidence concept2 < 0.1 then ageVocabulary rest
                  else (w, concept2) # ageVocabulary rest)
         else (w, concept) # ageVocabulary rest)"

definition Language_Update :: "Language \<Rightarrow> Language" where
  "Language_Update l =
     (let l1 = (if SpeechTimer l > 0
                then (let a = l\<lparr>SpeechTimer := SpeechTimer l - 0.016\<rparr>
                      in if SpeechTimer a \<le> 0 then a\<lparr>CurrentWord := []\<rparr> else a)
                else l)
      in l1\<lparr>Vocabulary := ageVocabulary (Vocabulary l1)\<rparr>)"

section \<open>Example states\<close>

definition cooldown_boundary :: Creature where
  \<comment> \<open>a healthy adult that last bred exactly 10 age-units ago\<close>
  "cooldown_boundary =
     \<lparr> X = 0, Y = 0, Age = 30, AgeStage = AgeAdult, Size = 1, Metabolism = NewMetabolism,
       BrainOutput = [0, 0, 0, 0, 0, 0, 0, 0.9], LastBreedTime = 20 \<rparr>"

definition willing_adult :: Creature where
  \<comment> \<open>a healthy adult that never bred, with breed output 0.9\<close>
  "willing_adult =
     \<lparr> X = 0, Y = 0, Age = 30, AgeStage = AgeAdult, Size = 1, Metabolism = NewMetabolism,
       BrainOutput = [0, 0, 0, 0, 0, 0, 0, 0.9], LastBreedTime = 0 \<rparr>"

definition parent_a :: Genetics where
  "parent_a =
     \<lparr> Genes = [(''fertility'', 1), (''strength'', 0.2)], ColorR = 0.5, ColorG = 0.7,
       ColorB = 0.3, Pattern = ''solid'',
       DominantGenes = [(''fertility'', True), (''strength'', False)] \<rparr>"

definition parent_b :: Genetics where
  "parent_b =
     \<lparr> Genes = [(''fertility'', 0), (''strength'', 0.9)], ColorR = 0.1, ColorG = 0.2,
       ColorB = 0.3, Pattern = ''striped'',
       DominantGenes = [(''fertility'', False), (''strength'', False)] \<rparr>"

definition taughtConcept :: "string \<Rightarrow> string \<Rightarrow> Concept" where
  \<comment> \<open>the entry that \<open>TeachWord\<close> stores\<close>
  "taughtConcept w objectType =
     \<lparr> Word = w, ObjectType = objectType, Associations = [], Confidence = 0.8, TimesUsed = 0,
       LastUsed = 0 \<rparr>"

definition teach_words :: "string list" where
  \<comment> \<open>56 different two-letter words: \<open>aa, ab, \<dots>, ag, ba, \<dots>, hg\<close>\<close>
  "teach_words = concat (map (\<lambda>x. map (\<lambda>y. [x, y]) ''abcdefg'') ''abcdefgh'')"

definition teach_all :: "string list \<Rightarrow> Language \<Rightarrow> Language" where
  \<comment> \<open>\<open>TeachWord(w, "toy")\<close> for each word of the list in turn\<close>
  "teach_all ws l = fold (\<lambda>w l. TeachWord l w ''toy'') ws l"




definition newborn :: Creature where
  "newborn = \<lparr> X = 0, Y = 0, Age = 0, AgeStage = AgeAdult, Size = 1, Metabolism = NewMetabolism,
       BrainOutput = [0, 0, 0, 0, 0, 0, 0, 0], LastBreedTime = 0 \<rparr>"

definition crowded_world :: World where
  "crowded_world = \<lparr> creatures = replicate 20 willing_adult \<rparr>"

definition three_adults :: World where
  "three_adults = \<lparr> creatures = [willing_adult, willing_adult, willing_adult] \<rparr>"

definition layers_fit :: "real list list \<Rightarrow> real list list \<Rightarrow> real list list \<Rightarrow> bool" where
  \<comment> \<open>the shape of \<open>wf_brain\<close>, for weights, biases and activations taken apart\<close>
  "layers_fit ws bs A \<longleftrightarrow>
     length A = length ws + 1 \<and> length bs = length ws \<and>
     (\<forall>k < length ws. length (bs ! k) = length (A ! (k + 1)) \<and>
                      length (ws ! k) = length (A ! k) * length (A ! (k + 1)))"

definition tiny_brain :: Brain where
  "tiny_brain =
     \<lparr> inputSize = 2, hiddenSize = [], outputSize = 1, weights = [[0, 0]], biases = [[0]],
       activations = [[0, 0], [0]], learningRate = 0.1, momentum = 0.9,
       prevWeightChanges = [[0, 0]], prevBiasChanges = [[0]], output = [0] \<rparr>"

section \<open>Properties of Metabolism\<close>

lemma Clamp_bounds: "lo \<le> hi \<Longrightarrow> lo \<le> Clamp v lo hi \<and> Clamp v lo hi \<le> hi"
  by (simp add: Clamp_def)

lemma Clamp_id: "lo \<le> v \<Longrightarrow> v \<le> hi \<Longrightarrow> Clamp v lo hi = v"
  by (simp add: Clamp_def)

text \<open>
  C9. \<open>Eat\<close> changes only Glucose, Hunger, Endorphins, LastMealTime and TotalFoodEaten:
  for every state and every nutrition value, Health, Energy, Toxins and Adrenaline (and
  the three rates and LastSleepTime) are the same before and after.
\<close>

theorem Eat_frame:
  "Health (Eat m n) = Health m \<and> Energy (Eat m n) = Energy m \<and>
   Toxins (Eat m n) = Toxins m \<and> Adrenaline (Eat m n) = Adrenaline m \<and>
   HungerRate (Eat m n) = HungerRate m \<and> EnergyRate (Eat m n) = EnergyRate m \<and>
   HealingRate (Eat m n) = HealingRate m \<and> LastSleepTime (Eat m n) = LastSleepTime m"
  by (simp add: Eat_def Let_def)

text \<open>
  C1. The claim: after every operation each Metabolism scalar lies in \<open>[0, 100]\<close>.
  \<open>IngestToxin\<close> subtracts \<open>amount * 0.2\<close> from Health without clamping: on a fresh
  Metabolism, whose scalars are all in range, a dose of 600 leaves Health at \<open>-20\<close>.
\<close>

theorem IngestToxin_health_below_range:
  "metabolism_in_range NewMetabolism \<and>
   Health (IngestToxin NewMetabolism 600) = - 20 \<and>
   \<not> metabolism_in_range (IngestToxin NewMetabolism 600)"
  by (simp add: IngestToxin_def NewMetabolism_def metabolism_in_range_def Clamp_def Let_def)

section \<open>Properties of CanBreed\<close>

text \<open>
  C6, as stated: \<open>CanBreed\<close> holds exactly when the creature is adult, Health is above
  70, Energy is above 50 and at least 10 age-units have passed since the last breeding.
  It fails for a healthy adult that bred exactly 10 age-units ago: the four conditions
  hold and \<open>CanBreed\<close> is false.
\<close>

theorem CanBreed_at_least_10_counterexample:
  "\<not> (CanBreed cooldown_boundary \<longleftrightarrow>
        (AgeStage cooldown_boundary = AgeAdult \<and> Health (Metabolism cooldown_boundary) > 70 \<and>
         Energy (Metabolism cooldown_boundary) > 50 \<and>
         Age cooldown_boundary - LastBreedTime cooldown_boundary \<ge> 10))"
  by (simp add: CanBreed_def cooldown_boundary_def NewMetabolism_def)

text \<open>
  C6, amended: \<open>CanBreed\<close> holds exactly when the creature is adult, Health is above 70,
  Energy is above 50 and more than 10 age-units have passed since the last breeding.
\<close>

theorem CanBreed_iff:
  "CanBreed c \<longleftrightarrow>
     AgeStage c = AgeAdult \<and> Health (Metabolism c) > 70 \<and> Energy (Metabolism c) > 50 \<and>
     Age c - LastBreedTime c > 10"
  by (simp add: CanBreed_def)

theorem CanBreed_iff_witness: "CanBreed willing_adult"
  using CanBreed_iff [of willing_adult] by (simp add: willing_adult_def NewMetabolism_def)

section \<open>Properties of Genetics\<close>

lemma similarityLoop_count: "snd acc \<le> snd (similarityLoop gs other acc)"
proof (induction gs arbitrary: acc)
  case Nil
  then show ?case by simp
next
  case (Cons p gs)
  obtain gene v where p: "p = (gene, v)" by (cases p)
  obtain t c where acc: "acc = (t, c)" by (cases acc)
  show ?case
  proof (cases "map_of other gene")
    case None
    then show ?thesis using Cons.IH [of "(t, c)"] by (simp add: p acc)
  next
    case (Some ov)
    then show ?thesis using Cons.IH [of "(t + \<bar>v - ov\<bar>, c + 1)"] by (simp add: p acc)
  qed
qed

text \<open>
  C10. \<open>g.Similarity(nil)\<close> is 0. For an argument that is not nil the count of compared
  components is at least 3, so the branch \<open>count == 0\<close> is not taken: the result is one
  minus the total difference over the count.
\<close>

theorem Similarity_nil_and_count:
  "Similarity g None = 0 \<and>
   3 \<le> snd (similarityTotals g other) \<and>
   Similarity g (Some other) =
     1 - fst (similarityTotals g other) / real_of_int (snd (similarityTotals g other))"
proof -
  have c: "3 \<le> snd (similarityTotals g other)"
    using similarityLoop_count [of "(0, 0)" "Genes g" "Genes other"]
    by (auto simp add: similarityTotals_def split: prod.splits)
  then have "snd (similarityTotals g other) \<noteq> 0" by linarith
  then have "Similarity g (Some other) =
     1 - fst (similarityTotals g other) / real_of_int (snd (similarityTotals g other))"
    by (simp add: Similarity_def split: prod.splits)
  with c show ?thesis by (simp add: Similarity_def)
qed

lemma list_all_update:
  "list_all P al \<Longrightarrow> P (k, v) \<Longrightarrow> list_all P (AList.update k v al)"
  by (induction al) auto

lemma geneValue_in_unit:
  assumes "genes_in_unit g"
  shows "0 \<le> geneValue (Genes g) gene \<and> geneValue (Genes g) gene \<le> 1"
proof (cases "map_of (Genes g) gene")
  case None
  then show ?thesis by (simp add: geneValue_def)
next
  case (Some v)
  then have "(gene, v) \<in> set (Genes g)" by (rule map_of_SomeD)
  with assms have "0 \<le> v \<and> v \<le> 1"
    by (auto simp: genes_in_unit_def list_all_iff)
  with Some show ?thesis by (simp add: geneValue_def)
qed

lemma genes_in_unit_update:
  "genes_in_unit g \<Longrightarrow> 0 \<le> v \<Longrightarrow> v \<le> 1 \<Longrightarrow>
   genes_in_unit (g\<lparr>Genes := AList.update gene v (Genes g)\<rparr>)"
  by (simp add: genes_in_unit_def list_all_update)

lemma initializeLoop_in_unit:
  "genes_in_unit g \<Longrightarrow> list_all (\<lambda>(gene, v). 0 \<le> v \<and> v \<le> 1) ds \<Longrightarrow>
   genes_in_unit (fst (initializeLoop ds g r))"
proof (induction ds arbitrary: g r)
  case Nil
  then show ?case by simp
next
  case (Cons d ds)
  obtain gene v where d: "d = (gene, v)" by (cases d)
  from Cons.prems d have v: "0 \<le> v" "v \<le> 1" and ds: "list_all (\<lambda>(gene, v). 0 \<le> v \<and> v \<le> 1) ds"
    by auto
  have "genes_in_unit (g\<lparr>Genes := AList.update gene v (Genes g),
          DominantGenes := AList.update gene (shd r > 0.5) (DominantGenes g)\<rparr>)"
    using Cons.prems(1) v by (simp add: genes_in_unit_def list_all_update)
  from Cons.IH [OF this ds] show ?case
    by (simp add: d Float64_def)
qed

lemma NewGenetics_in_unit: "genes_in_unit (fst (NewGenetics r))"
proof -
  have "genes_in_unit (fst (initializeLoop defaultGenes
          \<lparr>Genes = [], ColorR = 0, ColorG = 0, ColorB = 0, Pattern = [], DominantGenes = []\<rparr> r))"
    by (rule initializeLoop_in_unit) (simp_all add: genes_in_unit_def defaultGenes_def)
  then show ?thesis
    by (auto simp add: NewGenetics_def initializeDefaultGenes_def genes_in_unit_def split: prod.splits)
qed

lemma combineLoop_in_unit:
  assumes p1: "genes_in_unit parent1" and p2: "genes_in_unit parent2"
  shows "genes_in_unit child \<Longrightarrow> genes_in_unit (fst (combineLoop ks parent1 parent2 child r))"
proof (induction ks arbitrary: child r)
  case Nil
  then show ?case by simp
next
  case (Cons gene ks)
  let ?a = "geneValue (Genes parent1) gene" and ?b = "geneValue (Genes parent2) gene"
  have a: "0 \<le> ?a \<and> ?a \<le> 1" using p1 by (rule geneValue_in_unit)
  have b: "0 \<le> ?b \<and> ?b \<le> 1" using p2 by (rule geneValue_in_unit)
  have avg: "0 \<le> (?a + ?b) / 2 \<and> (?a + ?b) / 2 \<le> 1" using a b by simp
  have step: "\<And>v d. 0 \<le> v \<Longrightarrow> v \<le> 1 \<Longrightarrow>
      genes_in_unit (child\<lparr>Genes := AList.update gene v (Genes child),
                           DominantGenes := AList.update gene d (DominantGenes child)\<rparr>)"
    using Cons.prems by (simp add: genes_in_unit_def list_all_update)
  show ?case
    using a b avg by (auto simp: Let_def Float64_def intro!: Cons.IH step)
qed

lemma mutateLoop_in_unit:
  "genes_in_unit g \<Longrightarrow> genes_in_unit (fst (mutateLoop ks g r))"
proof (induction ks arbitrary: g r)
  case Nil
  then show ?case by simp
next
  case (Cons gene ks)
  have step: "\<And>v. genes_in_unit (g\<lparr>Genes := AList.update gene (Clamp v 0 1) (Genes g)\<rparr>)"
    using Cons.prems by (simp add: genes_in_unit_def list_all_update Clamp_def)
  have step2: "\<And>v d. genes_in_unit (g\<lparr>Genes := AList.update gene (Clamp v 0 1) (Genes g),
      DominantGenes := d\<rparr>)"
    using Cons.prems by (simp add: genes_in_unit_def list_all_update Clamp_def)
  show ?case
    using Cons.prems by (auto simp: Let_def Float64_def intro!: Cons.IH step step2)
qed

lemma combineGenes_in_unit:
  assumes "genes_in_unit parent1" and "genes_in_unit parent2"
  shows "genes_in_unit (fst (combineGenes parent1 parent2 r))"
proof -
  obtain child r1 where n: "NewGenetics r = (child, r1)" by (cases "NewGenetics r")
  then have c: "genes_in_unit child" using NewGenetics_in_unit [of r] by simp
  obtain child1 r2 where l: "combineLoop (map fst (Genes parent1)) parent1 parent2 child r1 = (child1, r2)"
    by (cases "combineLoop (map fst (Genes parent1)) parent1 parent2 child r1")
  then have "genes_in_unit child1"
    using combineLoop_in_unit [OF assms c, of "map fst (Genes parent1)" r1] by simp
  then show ?thesis
    by (simp add: combineGenes_def n l genes_in_unit_def Float64_def Let_def)
qed

lemma Genetics_Mutate_in_unit:
  assumes "genes_in_unit g"
  shows "genes_in_unit (fst (Genetics_Mutate g r))"
proof -
  obtain g1 r1 where l: "mutateLoop (map fst (Genes g)) g r = (g1, r1)"
    by (cases "mutateLoop (map fst (Genes g)) g r")
  then have "genes_in_unit g1" using mutateLoop_in_unit [OF assms, of "map fst (Genes g)" r] by simp
  then show ?thesis
    by (simp add: Genetics_Mutate_def l genes_in_unit_def Float64_def Intn_def Let_def split: prod.splits)
qed

text \<open>
  C3. For parents whose gene values all lie in \<open>[0, 1]\<close>, every gene value of the child
  lies in \<open>[0, 1]\<close>, both before \<open>Combine\<close> calls \<open>Mutate\<close> and after it, whatever the
  random source yields.
\<close>

theorem Combine_genes_in_unit:
  assumes "genes_in_unit parent1" and "genes_in_unit parent2"
  shows "genes_in_unit (fst (combineGenes parent1 parent2 r)) \<and>
         genes_in_unit (fst (Combine parent1 parent2 r))"
proof -
  have pre: "genes_in_unit (fst (combineGenes parent1 parent2 r))"
    using assms by (rule combineGenes_in_unit)
  obtain child r1 where c: "combineGenes parent1 parent2 r = (child, r1)"
    by (cases "combineGenes parent1 parent2 r")
  with pre have "genes_in_unit (fst (Genetics_Mutate child r1))"
    by (simp add: Genetics_Mutate_in_unit)
  with pre c show ?thesis by (simp add: Combine_def)
qed

theorem Combine_genes_in_unit_witness:
  "genes_in_unit parent_a \<and> genes_in_unit parent_b \<and>
   genes_in_unit (fst (combineGenes parent_a parent_b (sconst 0.05))) \<and>
   genes_in_unit (fst (Combine parent_a parent_b (sconst 0.05)))"
proof -
  have a: "genes_in_unit parent_a" by (simp add: genes_in_unit_def parent_a_def)
  have b: "genes_in_unit parent_b" by (simp add: genes_in_unit_def parent_b_def)
  from Combine_genes_in_unit [OF a b, of "sconst 0.05"] a b show ?thesis by simp
qed

section \<open>Properties of Language\<close>

lemma norm_ball: "ToLower (TrimSpace ''ball'') = ''ball''"
  by (simp add: ToLower_def TrimSpace_def isSpace_def toLowerChar_def)

lemma TeachWord_ball:
  "TeachWord NewLanguage ''ball'' ''toy'' =
     \<lparr> Vocabulary = [(''ball'', taughtConcept ''ball'' ''toy'')], RecentWords = [],
       SpeechClarity = 0.5, Comprehension = 0.5, VocabularyLimit = 50, CurrentWord = [],
       SpeechTimer = 0 \<rparr>"
  by (simp add: TeachWord_def norm_ball NewLanguage_def Let_def taughtConcept_def)

lemma ageVocabulary_recent:
  "list_all (\<lambda>(w, c). LastUsed c + 0.016 \<le> 600) v \<Longrightarrow> ageVocabulary v = v"
  by (induction v) (auto simp: Let_def)

lemma Language_Update_recent:
  "SpeechTimer l \<le> 0 \<Longrightarrow> list_all (\<lambda>(w, c). LastUsed c + 0.016 \<le> 600) (Vocabulary l) \<Longrightarrow>
   Language_Update l = l"
  by (simp add: Language_Update_def ageVocabulary_recent)

lemma Language_Update_funpow_recent:
  "SpeechTimer l \<le> 0 \<Longrightarrow> list_all (\<lambda>(w, c). LastUsed c + 0.016 \<le> 600) (Vocabulary l) \<Longrightarrow>
   (Language_Update ^^ n) l = l"
  by (induction n) (simp_all add: Language_Update_recent)

lemma ball_after_601:
  "(Language_Update ^^ 601) (TeachWord NewLanguage ''ball'' ''toy'') =
   TeachWord NewLanguage ''ball'' ''toy''"
  by (rule Language_Update_funpow_recent)
     (simp_all add: TeachWord_ball taughtConcept_def)

text \<open>
  \<open>Update\<close> adds 0.016 to the \<open>LastUsed\<close> of a copy of each entry, and stores the copy
  (or deletes the entry) only in the branch where that sum is above 600. An entry whose
  \<open>LastUsed\<close> is at most 599.984 is therefore left as it was, \<open>LastUsed\<close> included: after
  an \<open>Update\<close> the entry stored for "ball" is the one \<open>TeachWord\<close> stored, with
  \<open>LastUsed\<close> 0.
\<close>

lemma Update_keeps_stored_entry:
  "map_of (Vocabulary (Language_Update (TeachWord NewLanguage ''ball'' ''toy''))) ''ball'' =
     Some (taughtConcept ''ball'' ''toy'') \<and>
   LastUsed (taughtConcept ''ball'' ''toy'') = 0"
proof -
  have "Language_Update (TeachWord NewLanguage ''ball'' ''toy'') =
        TeachWord NewLanguage ''ball'' ''toy''"
    by (rule Language_Update_recent) (simp_all add: TeachWord_ball taughtConcept_def)
  then show ?thesis by (simp add: TeachWord_ball) (simp add: taughtConcept_def)
qed

text \<open>
  C4, as stated: after 601 calls of \<open>Update\<close> the confidence of "ball" is below 0.1 and
  \<open>KnowsWord("ball")\<close> is false. It is neither: the confidence is 0.8 and
  \<open>KnowsWord("ball")\<close> is true.
\<close>

theorem ball_not_forgotten_after_601:
  "\<not> GetWordConfidence ((Language_Update ^^ 601) (TeachWord NewLanguage ''ball'' ''toy'')) ''ball'' < 0.1 \<and>
   KnowsWord ((Language_Update ^^ 601) (TeachWord NewLanguage ''ball'' ''toy'')) ''ball''"
  unfolding ball_after_601
  by (simp add: TeachWord_ball GetWordConfidence_def KnowsWord_def norm_ball taughtConcept_def)

text \<open>
  C4, amended: after \<open>TeachWord("ball", "toy")\<close> on a fresh Language, \<open>KnowsWord("ball")\<close>
  is true and the confidence is 0.8; after 601 calls of \<open>Update\<close> the confidence is still
  0.8 and \<open>KnowsWord("ball")\<close> is still true.
\<close>

theorem ball_taught_and_kept:
  "KnowsWord (TeachWord NewLanguage ''ball'' ''toy'') ''ball'' \<and>
   GetWordConfidence (TeachWord NewLanguage ''ball'' ''toy'') ''ball'' = 0.8 \<and>
   GetWordConfidence ((Language_Update ^^ 601) (TeachWord NewLanguage ''ball'' ''toy'')) ''ball'' = 0.8 \<and>
   KnowsWord ((Language_Update ^^ 601) (TeachWord NewLanguage ''ball'' ''toy'')) ''ball''"
  unfolding ball_after_601
  by (simp add: TeachWord_ball GetWordConfidence_def KnowsWord_def norm_ball taughtConcept_def)

lemma update_fresh_key: "k \<notin> fst ` set al \<Longrightarrow> AList.update k v al = al @ [(k, v)]"
  by (induction al) auto

lemma delete_absent_key: "k \<notin> fst ` set al \<Longrightarrow> AList.delete k al = al"
  by (induction al) auto

lemma length_delete_key:
  "distinct (map fst al) \<Longrightarrow> k \<in> fst ` set al \<Longrightarrow> length (AList.delete k al) + 1 = length al"
proof (induction al)
  case Nil
  then show ?case by simp
next
  case (Cons e al)
  show ?case
  proof (cases "fst e = k")
    case True
    with Cons.prems(1) have "k \<notin> fst ` set al" by auto
    then show ?thesis using True by (cases e) (simp add: delete_absent_key)
  next
    case False
    with Cons.prems have "k \<in> fst ` set al" and "distinct (map fst al)" by auto
    with Cons.IH show ?thesis using False by (cases e) auto
  qed
qed

lemma delete_keys_subset: "fst ` set (AList.delete k al) \<subseteq> fst ` set al"
  by (auto simp: AList.delete_eq)

lemma leastUsedLoop_key:
  "fst (leastUsedLoop v acc) = fst acc \<or> fst (leastUsedLoop v acc) \<in> fst ` set v"
proof (induction v arbitrary: acc)
  case Nil
  then show ?case by simp
next
  case (Cons e v)
  obtain w c where e: "e = (w, c)" by (cases e)
  obtain k m where acc: "acc = (k, m)" by (cases acc)
  show ?case
    using Cons.IH [of "(w, TimesUsed c)"] Cons.IH [of "(k, m)"]
    by (auto simp: e acc)
qed

lemma TeachWord_below_limit:
  assumes "ToLower (TrimSpace word) = w" and "w \<notin> fst ` set (Vocabulary l)"
    and "int (length (Vocabulary l)) < VocabularyLimit l"
  shows "TeachWord l word objectType = l\<lparr>Vocabulary := Vocabulary l @ [(w, taughtConcept w objectType)]\<rparr>"
  using assms by (simp add: TeachWord_def Let_def update_fresh_key taughtConcept_def)

lemma TeachWord_at_limit:
  assumes w: "ToLower (TrimSpace word) = w" and new: "w \<notin> fst ` set (Vocabulary l)"
    and ne: "w \<noteq> []" and noempty: "[] \<notin> fst ` set (Vocabulary l)"
    and dist: "distinct (map fst (Vocabulary l))"
    and full: "int (length (Vocabulary l)) = VocabularyLimit l"
  shows "length (Vocabulary (TeachWord l word objectType)) = length (Vocabulary l) + 1 \<and>
         VocabularyLimit (TeachWord l word objectType) = VocabularyLimit l"
proof -
  let ?v = "Vocabulary l @ [(w, taughtConcept w objectType)]"
  let ?l1 = "l\<lparr>Vocabulary := ?v\<rparr>"
  have step: "TeachWord l word objectType = replaceLeastUsedWord ?l1 [] []"
    using w new full by (simp add: TeachWord_def Let_def update_fresh_key taughtConcept_def)
  obtain k m where lu: "leastUsedLoop ?v ([], MaxInt) = (k, m)"
    by (cases "leastUsedLoop ?v ([], MaxInt)")
  have k: "k = [] \<or> k \<in> fst ` set ?v"
    using leastUsedLoop_key [of ?v "([], MaxInt)"] by (simp add: lu)
  have dv: "distinct (map fst ?v)" using dist new by (auto simp: image_iff)
  have nv: "[] \<notin> fst ` set ?v" using noempty ne by auto
  show ?thesis
  proof (cases "k = []")
    case True
    then show ?thesis by (simp add: step replaceLeastUsedWord_def lu)
  next
    case False
    with k have kin: "k \<in> fst ` set ?v" by simp
    have "[] \<notin> fst ` set (AList.delete k ?v)"
      using nv delete_keys_subset [of k ?v] by blast
    then have "AList.update [] c (AList.delete k ?v) = AList.delete k ?v @ [([], c)]" for c
      by (rule update_fresh_key)
    moreover have "length (AList.delete k ?v) + 1 = length ?v"
      using dv kin by (rule length_delete_key)
    ultimately show ?thesis
      using False by (simp add: step replaceLeastUsedWord_def lu)
  qed
qed

lemma teach_all_fresh:
  "distinct (map fst (Vocabulary l) @ ws) \<Longrightarrow> list_all (\<lambda>w. ToLower (TrimSpace w) = w) ws \<Longrightarrow>
   int (length (Vocabulary l) + length ws) \<le> VocabularyLimit l \<Longrightarrow>
   teach_all ws l = l\<lparr>Vocabulary := Vocabulary l @ map (\<lambda>w. (w, taughtConcept w ''toy'')) ws\<rparr>"
proof (induction ws arbitrary: l)
  case Nil
  then show ?case by (simp add: teach_all_def)
next
  case (Cons w ws)
  have new: "w \<notin> fst ` set (Vocabulary l)" using Cons.prems(1) by (auto simp: image_iff)
  have t: "TeachWord l w ''toy'' = l\<lparr>Vocabulary := Vocabulary l @ [(w, taughtConcept w ''toy'')]\<rparr>"
    using Cons.prems new by (intro TeachWord_below_limit) auto
  have "teach_all ws (TeachWord l w ''toy'') =
        (TeachWord l w ''toy'')\<lparr>Vocabulary := Vocabulary (TeachWord l w ''toy'') @ map (\<lambda>w. (w, taughtConcept w ''toy'')) ws\<rparr>"
    using Cons.prems by (intro Cons.IH) (auto simp: t)
  then show ?case by (simp add: teach_all_def t)
qed

lemma teach_words_distinct: "distinct (take 51 teach_words)"
  by (simp add: teach_words_def)

lemma teach_words_normal: "list_all (\<lambda>w. ToLower (TrimSpace w) = w \<and> w \<noteq> []) (take 51 teach_words)"
  by (simp add: teach_words_def ToLower_def TrimSpace_def isSpace_def toLowerChar_def)

text \<open>
  C2. The claim: the vocabulary never holds more than 50 entries. Teaching 51 different
  words to a fresh Language leaves 51 entries: after the 51st insertion \<open>TeachWord\<close> calls
  \<open>replaceLeastUsedWord("", "")\<close>, which deletes one entry and then stores a new entry
  under the empty word.
\<close>

theorem TeachWord_exceeds_limit:
  "GetVocabularySize (teach_all (take 51 teach_words) NewLanguage) = 51 \<and>
   VocabularyLimit (teach_all (take 51 teach_words) NewLanguage) = 50"
proof -
  let ?ws = "take 50 teach_words"
  have split: "take 51 teach_words = ?ws @ [''hb'']"
    by (simp add: teach_words_def)
  have d: "distinct (?ws @ [''hb''])" using teach_words_distinct by (simp only: split)
  have n: "list_all (\<lambda>w. ToLower (TrimSpace w) = w \<and> w \<noteq> []) (?ws @ [''hb''])"
    using teach_words_normal by (simp only: split)
  have len: "length ?ws = 50" by (simp add: teach_words_def)
  let ?l = "teach_all ?ws NewLanguage"
  have l: "?l = NewLanguage\<lparr>Vocabulary := map (\<lambda>w. (w, taughtConcept w ''toy'')) ?ws\<rparr>"
    using d n len teach_all_fresh [of NewLanguage ?ws]
    by (simp add: NewLanguage_def list_all_iff)
  have voc: "Vocabulary ?l = map (\<lambda>w. (w, taughtConcept w ''toy'')) ?ws"
    by (subst l) simp
  have lim: "VocabularyLimit ?l = 50"
    by (subst l) (simp add: NewLanguage_def)
  have keys: "map fst (Vocabulary ?l) = ?ws" by (simp add: voc comp_def)
  have kset: "fst ` set (Vocabulary ?l) = set ?ws"
    using keys by (metis set_map)
  have "length (Vocabulary (TeachWord ?l ''hb'' ''toy'')) = length (Vocabulary ?l) + 1 \<and>
        VocabularyLimit (TeachWord ?l ''hb'' ''toy'') = VocabularyLimit ?l"
  proof (rule TeachWord_at_limit [where w = "''hb''"])
    show "ToLower (TrimSpace ''hb'') = ''hb''" using n by simp
    show "''hb'' \<notin> fst ` set (Vocabulary ?l)" using d by (simp only: kset distinct_append distinct.simps set_simps) simp
    show "''hb'' \<noteq> []" by simp
    show "[] \<notin> fst ` set (Vocabulary ?l)" using n by (simp only: kset list_all_iff) auto
    show "distinct (map fst (Vocabulary ?l))" using d keys by simp
    show "int (length (Vocabulary ?l)) = VocabularyLimit ?l" using len by (simp add: voc lim)
  qed
  moreover have "teach_all (take 51 teach_words) NewLanguage = TeachWord ?l ''hb'' ''toy''"
    by (simp only: split) (simp add: teach_all_def)
  ultimately show ?thesis using len by (simp add: GetVocabularySize_def voc lim)
qed

section \<open>Properties of RecallSimilarExperience\<close>










section \<open>Properties of handleBreeding\<close>

lemma closeAndWilling_outputs:
  "OutputBreed < length (BrainOutput c1) \<Longrightarrow> OutputBreed < length (BrainOutput c2) \<Longrightarrow>
   closeAndWilling c1 c2 =
     Inr (Distance (X c1) (Y c1) (X c2) (Y c2) < 60 \<and> BrainOutput c1 ! OutputBreed > 0.7 \<and>
          BrainOutput c2 ! OutputBreed > 0.7)"
  by (simp add: closeAndWilling_def breedOutput_def)

lemma findPartner_end: "\<not> j < length cs \<Longrightarrow> findPartner cs c1 j = Inr None"
  by (subst findPartner.simps) (simp add: Let_def)

lemma findPartner_hit:
  "j < length cs \<Longrightarrow> CanBreed (cs ! j) \<Longrightarrow> closeAndWilling c1 (cs ! j) = Inr True \<Longrightarrow>
   findPartner cs c1 j = Inr (Some j)"
  by (subst findPartner.simps) (simp add: Let_def)

lemma findPartner_skip:
  "j < length cs \<Longrightarrow> \<not> CanBreed (cs ! j) \<or> closeAndWilling c1 (cs ! j) = Inr False \<Longrightarrow>
   findPartner cs c1 j = findPartner cs c1 (j + 1)"
  by (subst findPartner.simps) (auto simp add: Let_def)

lemma findPartner_result:
  assumes c1: "OutputBreed < length (BrainOutput c1)"
    and cs: "\<forall>c\<in>set cs. OutputBreed < length (BrainOutput c)"
    and f1: "CanBreed c1"
  shows "(\<exists>k. findPartner cs c1 j = Inr (Some k) \<and> j \<le> k \<and> k < length cs \<and> fertilePair c1 (cs ! k)) \<or>
         (findPartner cs c1 j = Inr None \<and> (\<forall>k. j \<le> k \<and> k < length cs \<longrightarrow> \<not> fertilePair c1 (cs ! k)))"
proof (induction "length cs - j" arbitrary: j)
  case 0
  then have "\<not> j < length cs" by simp
  then show ?case by (auto simp add: findPartner_end)
next
  case (Suc n)
  then have j: "j < length cs" and n: "n = length cs - (j + 1)" by auto
  have c2: "OutputBreed < length (BrainOutput (cs ! j))" using cs j by simp
  note cw = closeAndWilling_outputs [OF c1 c2]
  show ?case
  proof (cases "fertilePair c1 (cs ! j)")
    case True
    then have "findPartner cs c1 j = Inr (Some j)"
      using j by (intro findPartner_hit) (simp_all add: cw fertilePair_def)
    with True j show ?thesis by auto
  next
    case False
    then have "findPartner cs c1 j = findPartner cs c1 (j + 1)"
      using j f1 by (intro findPartner_skip) (auto simp add: cw fertilePair_def)
    moreover have "k = j \<or> j + 1 \<le> k" if "j \<le> k" for k using that by auto
    ultimately show ?thesis
      using Suc.hyps(1) [OF n] False by (metis add_leD1)
  qed
qed

lemma findPair_end: "\<not> i < length cs \<Longrightarrow> findPair cs i = Inr None"
  by (subst findPair.simps) (simp add: Let_def)

lemma findPair_hit:
  "i < length cs \<Longrightarrow> CanBreed (cs ! i) \<Longrightarrow> findPartner cs (cs ! i) (i + 1) = Inr (Some j) \<Longrightarrow>
   findPair cs i = Inr (Some (i, j))"
  by (subst findPair.simps) (simp add: Let_def)

lemma findPair_skip:
  "i < length cs \<Longrightarrow> \<not> CanBreed (cs ! i) \<or> findPartner cs (cs ! i) (i + 1) = Inr None \<Longrightarrow>
   findPair cs i = findPair cs (i + 1)"
  by (subst findPair.simps) (auto simp add: Let_def)

lemma findPair_result:
  assumes cs: "\<forall>c\<in>set cs. OutputBreed < length (BrainOutput c)"
  shows "(\<exists>a b. findPair cs i = Inr (Some (a, b)) \<and> i \<le> a \<and> a < b \<and> b < length cs \<and>
                 fertilePair (cs ! a) (cs ! b)) \<or>
         (findPair cs i = Inr None \<and>
          (\<forall>a b. i \<le> a \<and> a < b \<and> b < length cs \<longrightarrow> \<not> fertilePair (cs ! a) (cs ! b)))"
proof (induction "length cs - i" arbitrary: i)
  case 0
  then have "\<not> i < length cs" by simp
  then show ?case by (auto simp add: findPair_end)
next
  case (Suc n)
  then have i: "i < length cs" and n: "n = length cs - (i + 1)" by auto
  have c1: "OutputBreed < length (BrainOutput (cs ! i))" using cs i by simp
  have later: "a = i \<or> i + 1 \<le> a" if "i \<le> a" for a using that by auto
  show ?case
  proof (cases "CanBreed (cs ! i)")
    case False
    then have "findPair cs i = findPair cs (i + 1)"
      using i by (intro findPair_skip) simp_all
    moreover have "\<not> fertilePair (cs ! i) (cs ! b)" for b
      using False by (simp add: fertilePair_def)
    ultimately show ?thesis
      using Suc.hyps(1) [OF n] later by (metis add_leD1)
  next
    case True
    from findPartner_result [OF c1 cs True, of "i + 1"] show ?thesis
    proof (elim disjE exE conjE)
      fix k
      assume k: "findPartner cs (cs ! i) (i + 1) = Inr (Some k)" "i + 1 \<le> k" "k < length cs"
        "fertilePair (cs ! i) (cs ! k)"
      then have "findPair cs i = Inr (Some (i, k))"
        using i True by (intro findPair_hit) simp_all
      with k show ?thesis by auto
    next
      assume none: "findPartner cs (cs ! i) (i + 1) = Inr None"
        and no: "\<forall>k. i + 1 \<le> k \<and> k < length cs \<longrightarrow> \<not> fertilePair (cs ! i) (cs ! k)"
      then have "findPair cs i = findPair cs (i + 1)"
        using i by (intro findPair_skip) simp_all
      moreover have "\<not> fertilePair (cs ! i) (cs ! b)" if "i < b" "b < length cs" for b
        using no that by simp
      ultimately show ?thesis
        using Suc.hyps(1) [OF n] later by (metis add_leD1)
    qed
  qed
qed

lemma length_breedPair: "length (creatures (breedPair fresh w i j)) = length (creatures w) + 1"
  by (simp add: breedPair_def Breed_def AddCreature_def Let_def)

text \<open>
  C5, amended: the breeding step of a tick adds at most one creature. When the world
  holds fewer than 20 creatures and some two of them are fertile, closer than 60 and
  both have a breed output above 0.7, it adds exactly one, however many such pairs
  there are; otherwise it leaves the world as it is. (Every brain output has the eight
  entries that \<open>NewBrain\<close> gives it.)
\<close>

theorem handleBreeding_one_child:
  assumes "\<forall>c\<in>set (creatures w). OutputBreed < length (BrainOutput c)"
  shows "\<exists>w'. handleBreeding fresh w = Inr w' \<and>
           (if length (creatures w) < GetMaxCreatures \<and>
               (\<exists>i j. i < j \<and> j < length (creatures w) \<and>
                      fertilePair (creatures w ! i) (creatures w ! j))
            then length (creatures w') = length (creatures w) + 1
            else w' = w)"
proof (cases "length (creatures w) < GetMaxCreatures")
  case False
  then show ?thesis by (simp add: handleBreeding_def)
next
  case True
  from findPair_result [OF assms, of 0] show ?thesis
  proof (elim disjE exE conjE)
    fix a b
    assume "findPair (creatures w) 0 = Inr (Some (a, b))" and "a < b" and "b < length (creatures w)"
      and "fertilePair (creatures w ! a) (creatures w ! b)"
    then show ?thesis using True by (auto simp add: handleBreeding_def length_breedPair)
  next
    assume "findPair (creatures w) 0 = Inr None"
      and "\<forall>a b. 0 \<le> a \<and> a < b \<and> b < length (creatures w) \<longrightarrow>
             \<not> fertilePair (creatures w ! a) (creatures w ! b)"
    then show ?thesis using True by (auto simp add: handleBreeding_def)
  qed
qed

lemma willing_pair: "fertilePair willing_adult willing_adult"
  by (simp add: fertilePair_def CanBreed_def willing_adult_def NewMetabolism_def Distance_def
      OutputBreed_def)

text \<open>
  C5, as stated: whenever two fertile, willing creatures are in range, exactly one child
  is produced. In a world of 20 such creatures \<open>handleBreeding\<close> returns at once and
  no child is produced.
\<close>

theorem handleBreeding_full_world:
  "length (creatures crowded_world) = 20 \<and>
   fertilePair (creatures crowded_world ! 0) (creatures crowded_world ! 1) \<and>
   handleBreeding newborn crowded_world = Inr crowded_world"
  by (simp add: crowded_world_def willing_pair handleBreeding_def GetMaxCreatures_def)

theorem handleBreeding_one_child_witness:
  "\<exists>w'. handleBreeding newborn three_adults = Inr w' \<and> length (creatures w') = 4"
proof -
  have wf: "\<forall>c\<in>set (creatures three_adults). OutputBreed < length (BrainOutput c)"
    by (simp add: three_adults_def willing_adult_def OutputBreed_def)
  have pair: "\<exists>i j. i < j \<and> j < length (creatures three_adults) \<and>
      fertilePair (creatures three_adults ! i) (creatures three_adults ! j)"
    by (intro exI [of _ 0] exI [of _ 1]) (simp add: three_adults_def willing_pair)
  have len: "length (creatures three_adults) < GetMaxCreatures"
    by (simp add: three_adults_def GetMaxCreatures_def)
  from handleBreeding_one_child [OF wf, of newborn] pair len
  have "\<exists>w'. handleBreeding newborn three_adults = Inr w' \<and>
          length (creatures w') = length (creatures three_adults) + 1"
    by simp
  moreover have "length (creatures three_adults) + 1 = 4" by (simp add: three_adults_def)
  ultimately show ?thesis by simp
qed

section \<open>Properties of Process\<close>

lemma length_copy: "length (copy dst src) = length dst"
  by (simp add: copy_def)

lemma copy_copy: "copy (copy dst src) src = copy dst src"
  by (simp add: copy_def min_def)

lemma neuronInput_cong:
  "acts' ! k = acts ! k \<Longrightarrow> length (acts' ! (k + 1)) = length (acts ! (k + 1)) \<Longrightarrow>
   neuronInput ws bs acts' k j = neuronInput ws bs acts k j"
  by (simp add: neuronInput_def)

lemma forwardNeurons_frame:
  "forwardNeurons ws bs A k j = Inr A1 \<Longrightarrow> k + 1 < length A \<Longrightarrow>
   length A1 = length A \<and> (\<forall>m. m \<noteq> k + 1 \<longrightarrow> A1 ! m = A ! m) \<and>
   length (A1 ! (k + 1)) = length (A ! (k + 1)) \<and>
   (\<forall>i<j. A1 ! (k + 1) ! i = A ! (k + 1) ! i)"
proof (induction ws bs A k j rule: forwardNeurons.induct)
  case (1 ws bs A k j)
  show ?case
  proof (cases "j < length (A ! (k + 1))")
    case False
    with "1.prems" show ?thesis by (subst (asm) forwardNeurons.simps) simp
  next
    case True
    from "1.prems"(1) True obtain s where s: "neuronInput ws bs A k j = Inr s"
      and rest: "forwardNeurons ws bs (A[k + 1 := (A ! (k + 1))[j := sigmoid s]]) k (j + 1) = Inr A1"
      by (subst (asm) forwardNeurons.simps) (auto split: sum.splits)
    let ?A2 = "A[k + 1 := (A ! (k + 1))[j := sigmoid s]]"
    have "k + 1 < length ?A2" using "1.prems"(2) by simp
    from "1.IH" [OF True s rest this] "1.prems"(2) show ?thesis
      by (auto simp: nth_list_update)
  qed
qed

lemma forwardNeurons_replay:
  "forwardNeurons ws bs A k j = Inr A1 \<Longrightarrow> k + 1 < length A \<Longrightarrow>
   k + 1 < length B \<Longrightarrow> B ! k = A ! k \<Longrightarrow> B ! (k + 1) = A1 ! (k + 1) \<Longrightarrow>
   forwardNeurons ws bs B k j = Inr B"
proof (induction ws bs A k j rule: forwardNeurons.induct)
  case (1 ws bs A k j)
  note fr = forwardNeurons_frame [OF "1.prems"(1,2)]
  have lenB: "length (B ! (k + 1)) = length (A ! (k + 1))" using fr "1.prems"(5) by simp
  show ?case
  proof (cases "j < length (A ! (k + 1))")
    case False
    then show ?thesis using lenB by (subst forwardNeurons.simps) simp
  next
    case True
    from "1.prems"(1) True obtain s where s: "neuronInput ws bs A k j = Inr s"
      and rest: "forwardNeurons ws bs (A[k + 1 := (A ! (k + 1))[j := sigmoid s]]) k (j + 1) = Inr A1"
      by (subst (asm) forwardNeurons.simps) (auto split: sum.splits)
    let ?A2 = "A[k + 1 := (A ! (k + 1))[j := sigmoid s]]"
    have A2: "k + 1 < length ?A2" using "1.prems"(2) by simp
    have sB: "neuronInput ws bs B k j = Inr s"
      using neuronInput_cong [of B k A ws bs j] "1.prems"(4) lenB s by simp
    have "A1 ! (k + 1) ! j = ?A2 ! (k + 1) ! j"
      using forwardNeurons_frame [OF rest A2] by simp
    also have "\<dots> = sigmoid s" using True "1.prems"(2) by simp
    finally have "(B ! (k + 1))[j := sigmoid s] = B ! (k + 1)"
      using "1.prems"(5) by (metis list_update_id)
    then have same: "B[k + 1 := (B ! (k + 1))[j := sigmoid s]] = B" by simp
    have "?A2 ! k = A ! k" by simp
    with "1.prems"(4) have Bk: "B ! k = ?A2 ! k" by simp
    have nxt: "forwardNeurons ws bs B k (j + 1) = Inr B"
      using "1.IH" [OF True s rest A2 "1.prems"(3) Bk "1.prems"(5)] .
    show ?thesis
      using True lenB sB same nxt by (subst forwardNeurons.simps) simp
  qed
qed

lemma forward_frame:
  "forward ws bs A k = Inr A' \<Longrightarrow> length A' = length A \<and> (\<forall>m\<le>k. A' ! m = A ! m)"
proof (induction ws bs A k rule: forward.induct)
  case (1 ws bs A k)
  show ?case
  proof (cases "k < length ws")
    case False
    with "1.prems" show ?thesis by (subst (asm) forward.simps) simp
  next
    case True
    from "1.prems" True have k1: "k + 1 < length A"
      by (subst (asm) forward.simps) (auto split: if_splits)
    from "1.prems" True k1 obtain A1 where n: "forwardNeurons ws bs A k 0 = Inr A1"
      and rest: "forward ws bs A1 (k + 1) = Inr A'"
      by (subst (asm) forward.simps) (auto split: sum.splits)
    from "1.IH" [OF True k1 n rest] forwardNeurons_frame [OF n k1] show ?thesis
      by auto
  qed
qed

lemma forward_replay:
  "forward ws bs A k = Inr A' \<Longrightarrow> forward ws bs A' k = Inr A'"
proof (induction ws bs A k rule: forward.induct)
  case (1 ws bs A k)
  show ?case
  proof (cases "k < length ws")
    case False
    then show ?thesis by (subst forward.simps) simp
  next
    case True
    from "1.prems" True have k1: "k + 1 < length A"
      by (subst (asm) forward.simps) (auto split: if_splits)
    from "1.prems" True k1 obtain A1 where n: "forwardNeurons ws bs A k 0 = Inr A1"
      and rest: "forward ws bs A1 (k + 1) = Inr A'"
      by (subst (asm) forward.simps) (auto split: sum.splits)
    note f1 = forwardNeurons_frame [OF n k1]
    note f2 = forward_frame [OF rest]
    have len: "k + 1 < length A'" using f1 f2 k1 by simp
    have Ak: "A' ! k = A ! k" using f1 f2 by simp
    have Ak1: "A' ! (k + 1) = A1 ! (k + 1)" using f2 by simp
    have "forwardNeurons ws bs A' k 0 = Inr A'"
      using forwardNeurons_replay [OF n k1 len Ak Ak1] .
    moreover have "forward ws bs A' (k + 1) = Inr A'"
      using "1.IH" [OF True k1 n rest] .
    ultimately show ?thesis using True len by (subst forward.simps) simp
  qed
qed

lemma Process_replay:
  assumes "Process b input = Inr b1"
  shows "Process b1 input = Inr b1"
proof -
  from assms obtain inp where inp: "fitInput (inputSize b) input = Inr inp"
    by (auto simp: Process_def split: sum.splits)
  from assms inp have ne: "activations b \<noteq> []"
    by (auto simp: Process_def split: if_splits)
  let ?A0 = "(activations b)[0 := copy (activations b ! 0) inp]"
  from assms inp ne obtain A' where fw: "forward (weights b) (biases b) ?A0 0 = Inr A'"
    and b1: "b1 = b\<lparr>activations := A', output := copy (output b) (A' ! (length A' - 1))\<rparr>"
    by (auto simp: Process_def split: sum.splits)
  note fr = forward_frame [OF fw]
  have ne': "A' \<noteq> []" using fr ne by auto
  have "A' ! 0 = copy (activations b ! 0) inp" using fr ne by simp
  then have "copy (A' ! 0) inp = A' ! 0" by (simp add: copy_copy)
  then have same: "A'[0 := copy (A' ! 0) inp] = A'" by simp
  have "forward (weights b) (biases b) A' 0 = Inr A'" using fw by (rule forward_replay)
  then show ?thesis
    using inp ne' same by (simp add: Process_def b1 copy_copy)
qed


lemma weightIndex_bound: "i < m \<Longrightarrow> j < n \<Longrightarrow> i * n + j < m * (n::nat)"
proof -
  assume i: "i < m" and j: "j < n"
  have "i * n + j < Suc i * n" using j by simp
  also have "\<dots> \<le> m * n" using i by (intro mult_le_mono1) simp
  finally show ?thesis .
qed

lemma weightedSum_total:
  "length ws = length acts * n \<Longrightarrow> j < n \<Longrightarrow> \<exists>s. weightedSum acts ws n j i acc = Inr s"
proof (induction "length acts - i" arbitrary: i acc)
  case 0
  then have "\<not> i < length acts" by simp
  then show ?case by (subst weightedSum.simps) simp
next
  case (Suc d)
  then have i: "i < length acts" and d: "d = length acts - (i + 1)" by auto
  have "i * n + j < length ws" using i Suc.prems by (simp add: weightIndex_bound)
  moreover obtain s where "weightedSum acts ws n j (i + 1) (acc + acts ! i * ws ! (i * n + j)) = Inr s"
    using Suc.hyps(1) [OF d Suc.prems] by blast
  ultimately show ?case using i by (subst weightedSum.simps) (simp add: Let_def)
qed

lemma forwardNeurons_total:
  "k + 1 < length A \<Longrightarrow> k < length bs \<Longrightarrow> length (bs ! k) = length (A ! (k + 1)) \<Longrightarrow>
   length (ws ! k) = length (A ! k) * length (A ! (k + 1)) \<Longrightarrow>
   \<exists>A1. forwardNeurons ws bs A k j = Inr A1"
proof (induction "length (A ! (k + 1)) - j" arbitrary: A j)
  case 0
  then have "\<not> j < length (A ! (k + 1))" by simp
  then show ?case by (subst forwardNeurons.simps) simp
next
  case (Suc d)
  then have j: "j < length (A ! (k + 1))" and d: "d = length (A ! (k + 1)) - (j + 1)" by auto
  obtain s where s: "neuronInput ws bs A k j = Inr s"
    using weightedSum_total [of "ws ! k" "A ! k" "length (A ! (k + 1))" j 0 "bs ! k ! j"] j Suc.prems
    by (auto simp: neuronInput_def)
  let ?A2 = "A[k + 1 := (A ! (k + 1))[j := sigmoid s]]"
  have "\<exists>A1. forwardNeurons ws bs ?A2 k (j + 1) = Inr A1"
    using Suc.prems d by (intro Suc.hyps(1)) simp_all
  then show ?case using j s by (subst forwardNeurons.simps) simp
qed

lemma forwardNeurons_layers_fit:
  assumes "forwardNeurons ws bs A k j = Inr A1" and "k + 1 < length A" and "layers_fit ws bs A"
  shows "layers_fit ws bs A1"
proof -
  note fr = forwardNeurons_frame [OF assms(1,2)]
  have "length (A1 ! m) = length (A ! m)" for m
    using fr by (cases "m = k + 1") simp_all
  then show ?thesis using assms(3) fr by (simp add: layers_fit_def)
qed

lemma forward_total:
  "layers_fit ws bs A \<Longrightarrow> \<exists>A'. forward ws bs A k = Inr A'"
proof (induction "length ws - k" arbitrary: A k)
  case 0
  then have "\<not> k < length ws" by simp
  then show ?case by (subst forward.simps) simp
next
  case (Suc d)
  then have k: "k < length ws" and d: "d = length ws - (k + 1)" by auto
  have k1: "k + 1 < length A" using Suc.prems k by (simp add: layers_fit_def)
  obtain A1 where n: "forwardNeurons ws bs A k 0 = Inr A1"
    using forwardNeurons_total [of k A bs ws 0] Suc.prems k k1 by (auto simp: layers_fit_def)
  have "layers_fit ws bs A1" using n k1 Suc.prems by (rule forwardNeurons_layers_fit)
  then obtain A' where "forward ws bs A1 (k + 1) = Inr A'"
    using Suc.hyps(1) [OF d] by blast
  then show ?case using k k1 n by (subst forward.simps) simp
qed

lemma Process_total:
  assumes "wf_brain b"
  shows "\<exists>b1. Process b input = Inr b1"
proof -
  have "0 \<le> inputSize b" using assms by (simp add: wf_brain_def)
  then have "\<exists>inp. fitInput (inputSize b) input = Inr inp"
    by (simp add: fitInput_def)
  then obtain inp where inp: "fitInput (inputSize b) input = Inr inp" ..
  have ne: "activations b \<noteq> []" using assms by (auto simp: wf_brain_def)
  let ?A0 = "(activations b)[0 := copy (activations b ! 0) inp]"
  have "length (?A0 ! m) = length (activations b ! m)" for m
    using ne by (cases m) (simp_all add: length_copy)
  then have "layers_fit (weights b) (biases b) ?A0"
    using assms by (simp add: layers_fit_def wf_brain_def)
  then obtain A' where "forward (weights b) (biases b) ?A0 0 = Inr A'"
    using forward_total by blast
  then show ?thesis using inp ne by (simp add: Process_def)
qed

text \<open>
  C8. For every brain and every input: when a call of \<open>Process\<close> returns, a second call
  with the same input returns the very state the first call left, so the output vector
  is the same. The first call does return on every brain of the shape that
  \<open>initializeNetwork\<close> builds.
\<close>

theorem Process_twice:
  "(\<forall>b1. Process b input = Inr b1 \<longrightarrow> Process b1 input = Inr b1) \<and>
   (wf_brain b \<longrightarrow> (\<exists>b1. Process b input = Inr b1))"
  using Process_replay Process_total by blast

lemma sigmoid_0: "sigmoid 0 = 1 / 2"
  by (simp add: sigmoid_def)

lemma tiny_brain_run:
  "Process tiny_brain [1] = Inr (tiny_brain\<lparr>activations := [[1, 0], [1 / 2]], output := [1 / 2]\<rparr>)"
  by (simp add: Process_def tiny_brain_def fitInput_def copy_def forward.simps forwardNeurons.simps
      neuronInput_def weightedSum.simps sigmoid_0 Let_def)

theorem Process_twice_witness:
  "\<exists>b1. Process tiny_brain [1] = Inr b1 \<and> Process b1 [1] = Inr b1"
proof -
  have wf: "wf_brain tiny_brain" by (simp add: wf_brain_def tiny_brain_def)
  with Process_twice [of tiny_brain "[1]"] show ?thesis by blast
qed

end
